theory Spec2Isabelle
  imports Main
begin

section \<open>JavaScript values\<close>

text \<open>
  Values that cross the two boundaries of the server (the body of an upstream response and
  the payload of a result) are JSON documents. The numbers of the model are the integers
  (those below \<open>10^21\<close> in magnitude are printed digit by digit); an object is the
  list of its entries in insertion order, with distinct keys as \<open>JSON.parse\<close>
  produces them.
\<close>

datatype json =
    JNull
  | JBool bool
  | JNum int
  | JStr string
  | JArr "json list"
  | JObj "(string \<times> json) list"

text \<open>A JavaScript expression may also be \<open>undefined\<close>: that is \<open>None\<close>.\<close>

type_synonym jsval = "json option"

text \<open>The truth value an \<open>if (v)\<close> or \<open>v || w\<close> gives to \<open>v\<close>.\<close>

fun truthy :: "json \<Rightarrow> bool" where
  "truthy JNull = False"
| "truthy (JBool b) = b"
| "truthy (JNum n) = (n \<noteq> 0)"
| "truthy (JStr s) = (s \<noteq> [])"
| "truthy (JArr xs) = True"
| "truthy (JObj kvs) = True"

fun truthy_val :: "jsval \<Rightarrow> bool" where
  "truthy_val None = False"
| "truthy_val (Some v) = truthy v"

text \<open>
  What a \<open>try\<close> block can catch: an \<open>Error\<close> with its message, the protocol's
  \<open>McpError\<close> (a subclass of \<open>Error\<close> that carries a code), or a thrown value that is
  not an instance of \<open>Error\<close>.
\<close>

datatype ErrorCode =
    ConnectionClosed
  | RequestTimeout
  | ParseError
  | InvalidRequest
  | MethodNotFound
  | InvalidParams
  | InternalError

datatype js_error =
    Error string
  | McpError ErrorCode string
  | NonError

text \<open>
  \<open>v.k\<close> for one of the keys the server reads (\<open>cookie\<close>, \<open>user\<close>, \<open>error\<close>), none of which is
  a member of a built-in prototype: reading a property of \<open>null\<close> throws a TypeError,
  an object gives its entry or \<open>undefined\<close>, every other value gives \<open>undefined\<close>.
\<close>

fun get_property :: "json \<Rightarrow> string \<Rightarrow> js_error + jsval" where
  "get_property JNull k =
     Inl (Error (''Cannot read properties of null (reading '' @ [CHR 0x27] @ k @ [CHR 0x27] @ '')''))"
| "get_property (JObj kvs) k = Inr (map_of kvs k)"
| "get_property v k = Inr None"

text \<open>\<open>v?.k\<close>: as above, but \<open>undefined\<close> and \<open>null\<close> give \<open>undefined\<close>.\<close>

fun opt_property :: "jsval \<Rightarrow> string \<Rightarrow> jsval" where
  "opt_property None k = None"
| "opt_property (Some (JObj kvs)) k = map_of kvs k"
| "opt_property (Some v) k = None"

text \<open>
  A number as a template literal prints it: its decimal digits, most significant first,
  after a minus sign when it is negative.
\<close>

definition digit :: "nat \<Rightarrow> char" where
  "digit d = ''0123456789'' ! d"

fun decimal :: "nat \<Rightarrow> string \<Rightarrow> string" where
  "decimal n acc =
     (if n < 10 then digit n # acc else decimal (n div 10) (digit (n mod 10) # acc))"

declare decimal.simps [simp del]

definition Number_toString :: "int \<Rightarrow> string" where
  "Number_toString i = (if 0 \<le> i then decimal (nat i) [] else CHR ''-'' # decimal (nat (- i)) [])"

fun join :: "string \<Rightarrow> string list \<Rightarrow> string" where
  "join sep [] = []"
| "join sep [x] = x"
| "join sep (x # y # ys) = x @ sep @ join sep (y # ys)"

text \<open>
  The string a template literal \<open>`${v}`\<close> puts in place of \<open>v\<close>: an array joins its
  elements with commas, \<open>null\<close> elements being empty; an object is \<open>[object Object]\<close>.
\<close>

fun ToString :: "json \<Rightarrow> string" where
  "ToString JNull = ''null''"
| "ToString (JBool b) = (if b then ''true'' else ''false'')"
| "ToString (JNum n) = Number_toString n"
| "ToString (JStr s) = s"
| "ToString (JArr xs) = join '','' (map (\<lambda>x. if x = JNull then [] else ToString x) xs)"
| "ToString (JObj kvs) = ''[object Object]''"

text \<open>
  \<open>JSON.stringify(v, null, 2)\<close> and \<open>JSON.parse\<close> belong to the language, not to the
  server. A serialised text is represented by the document it serialises, and parsing
  such a text gives that document back.
\<close>

datatype json_text = JSON_stringify json

fun JSON_parse :: "json_text \<Rightarrow> json" where
  "JSON_parse (JSON_stringify v) = v"

section \<open>The HTTP client\<close>

datatype http_method = GET | POST

text \<open>
  One call of \<open>apiClient.get(endpoint, config)\<close> or \<open>apiClient.post(endpoint, data, config)\<close>:
  the per-request headers, the query parameters of a GET and the body of a POST. A
  parameter may be \<open>undefined\<close>.
\<close>

record request =
  verb :: http_method
  endpoint :: string
  headers :: "(string \<times> json) list"
  params :: "(string \<times> jsval) list"
  data :: "(string \<times> jsval) list"

text \<open>
  How such a call ends: a 2xx response with its \<open>data\<close>; an axios error, with
  \<open>error.response\<close> (status and data) when the server answered and \<open>error.message\<close>;
  or any other exception, an \<open>Error\<close> with its message or a value that is not one.
\<close>

datatype outcome =
    Response json
  | AxiosError "(nat \<times> json) option" string
  | OtherError "string option"

type_synonym client = "request \<Rightarrow> outcome"

section \<open>The server\<close>

text \<open>
  The fields of \<open>TwitterAPIMCPServer\<close> that the handlers read and write. \<open>loginCookie\<close>
  starts as \<open>null\<close>. \<open>sent\<close> is the trace of the upstream requests issued so far.
\<close>

record server =
  apiKey :: string
  loginCookie :: json
  sent :: "request list"

definition init :: "string \<Rightarrow> server" where
  "init key = \<lparr>apiKey = key, loginCookie = JNull, sent = []\<rparr>"

text \<open>The headers both request functions put in \<open>config.headers\<close>.\<close>

definition config_headers :: "server \<Rightarrow> (string \<times> json) list" where
  "config_headers s =
     (if apiKey s \<noteq> [] then [(''x-api-key'', JStr (apiKey s))] else []) @
     (if truthy (loginCookie s) then [(''Cookie'', loginCookie s)] else [])"

text \<open>The \<open>catch\<close> clause both request functions share.\<close>

definition api_error :: "(nat \<times> json) option \<Rightarrow> string \<Rightarrow> js_error" where
  "api_error response message =
     (let statusCode = (case response of Some (status, d) \<Rightarrow> if status \<noteq> 0 then status else 500
                        | None \<Rightarrow> 500);
          errorMessage = (let e = opt_property (map_option snd response) ''error''
                          in if truthy_val e then ToString (the e) else message)
      in Error (''TwitterAPI.io API error ('' @ Number_toString (int statusCode) @ ''): '' @ errorMessage))"

text \<open>An exception that is not an axios error is thrown on as it is.\<close>

definition rethrow :: "string option \<Rightarrow> js_error" where
  "rethrow e = (case e of Some message \<Rightarrow> Error message | None \<Rightarrow> NonError)"

definition makeRequest ::
  "client \<Rightarrow> string \<Rightarrow> (string \<times> jsval) list \<Rightarrow> server \<Rightarrow> (js_error + json) \<times> server" where
  "makeRequest http ep ps s =
     (let r = \<lparr>verb = GET, endpoint = ep, headers = config_headers s, params = ps, data = []\<rparr>;
          s' = s\<lparr>sent := sent s @ [r]\<rparr>
      in case http r of
           Response d \<Rightarrow> (Inr d, s')
         | AxiosError response message \<Rightarrow> (Inl (api_error response message), s')
         | OtherError e \<Rightarrow> (Inl (rethrow e), s'))"

definition makePostRequest ::
  "client \<Rightarrow> string \<Rightarrow> (string \<times> jsval) list \<Rightarrow> server \<Rightarrow> (js_error + json) \<times> server" where
  "makePostRequest http ep body s =
     (let r = \<lparr>verb = POST, endpoint = ep, headers = config_headers s, params = [], data = body\<rparr>;
          s' = s\<lparr>sent := sent s @ [r]\<rparr>
      in case http r of
           Response d \<Rightarrow> (Inr d, s')
         | AxiosError response message \<Rightarrow> (Inl (api_error response message), s')
         | OtherError e \<Rightarrow> (Inl (rethrow e), s'))"

text \<open>A result: \<open>content\<close> is a list of blocks of type \<open>text\<close>.\<close>

datatype content_block = TextContent json_text

record CallToolResult =
  content :: "content_block list"

text \<open>
  What a handler returns from the outcome of its request: one text block that holds the
  serialised data, or the exception of the request as it is.
\<close>

definition envelope :: "(js_error + json) \<times> server \<Rightarrow> (js_error + CallToolResult) \<times> server" where
  "envelope r =
     (case r of
        (Inl e, s) \<Rightarrow> (Inl e, s)
      | (Inr d, s) \<Rightarrow> (Inr \<lparr>content = [TextContent (JSON_stringify d)]\<rparr>, s))"

definition str :: "string option \<Rightarrow> jsval" where
  "str v = map_option JStr v"

definition getUserByUsername ::
  "client \<Rightarrow> string option \<Rightarrow> server \<Rightarrow> (js_error + CallToolResult) \<times> server" where
  "getUserByUsername http username s =
     envelope (makeRequest http ''/user/info'' [(''userName'', str username)] s)"

definition getUserById ::
  "client \<Rightarrow> string option \<Rightarrow> server \<Rightarrow> (js_error + CallToolResult) \<times> server" where
  "getUserById http userId s =
     envelope (makeRequest http ''/user/info'' [(''user_id'', str userId)] s)"

definition getUserTweets ::
  "client \<Rightarrow> string option \<Rightarrow> int option \<Rightarrow> server \<Rightarrow> (js_error + CallToolResult) \<times> server" where
  "getUserTweets http username count s =
     (let count = (case count of None \<Rightarrow> 10 | Some c \<Rightarrow> c)
      in envelope (makeRequest http ''/user/last_tweets''
           [(''userName'', str username), (''count'', Some (JNum (min count 100)))] s))"

definition searchTweets ::
  "client \<Rightarrow> string option \<Rightarrow> int option \<Rightarrow> string option \<Rightarrow> server
     \<Rightarrow> (js_error + CallToolResult) \<times> server" where
  "searchTweets http query count resultType s =
     (let count = (case count of None \<Rightarrow> 10 | Some c \<Rightarrow> c);
          resultType = (case resultType of None \<Rightarrow> ''recent'' | Some t \<Rightarrow> t)
      in envelope (makeRequest http ''/tweet/advanced_search''
           [(''query'', str query), (''count'', Some (JNum (min count 100))),
            (''result_type'', Some (JStr resultType))] s))"

definition getTweetById ::
  "client \<Rightarrow> string option \<Rightarrow> server \<Rightarrow> (js_error + CallToolResult) \<times> server" where
  "getTweetById http tweetId s =
     envelope (makeRequest http ''/tweets'' [(''tweet_id'', str tweetId)] s)"

definition getTweetReplies ::
  "client \<Rightarrow> string option \<Rightarrow> int option \<Rightarrow> server \<Rightarrow> (js_error + CallToolResult) \<times> server" where
  "getTweetReplies http tweetId count s =
     (let count = (case count of None \<Rightarrow> 10 | Some c \<Rightarrow> c)
      in envelope (makeRequest http ''/tweet/replies''
           [(''id'', str tweetId), (''count'', Some (JNum (min count 100)))] s))"

definition getUserFollowers ::
  "client \<Rightarrow> string option \<Rightarrow> int option \<Rightarrow> server \<Rightarrow> (js_error + CallToolResult) \<times> server" where
  "getUserFollowers http username count s =
     (let count = (case count of None \<Rightarrow> 20 | Some c \<Rightarrow> c)
      in envelope (makeRequest http ''/user/followers''
           [(''userName'', str username), (''count'', Some (JNum (min count 100)))] s))"

definition getUserFollowing ::
  "client \<Rightarrow> string option \<Rightarrow> int option \<Rightarrow> server \<Rightarrow> (js_error + CallToolResult) \<times> server" where
  "getUserFollowing http username count s =
     (let count = (case count of None \<Rightarrow> 20 | Some c \<Rightarrow> c)
      in envelope (makeRequest http ''/user/followings''
           [(''userName'', str username), (''count'', Some (JNum (min count 100)))] s))"

definition searchUsers ::
  "client \<Rightarrow> string option \<Rightarrow> int option \<Rightarrow> server \<Rightarrow> (js_error + CallToolResult) \<times> server" where
  "searchUsers http query count s =
     (let count = (case count of None \<Rightarrow> 10 | Some c \<Rightarrow> c)
      in envelope (makeRequest http ''/user/search''
           [(''query'', str query), (''count'', Some (JNum (min count 50)))] s))"

text \<open>
  \<open>loginUser\<close>: everything thrown inside its \<open>try\<close> block, by the request or by reading
  \<open>loginData.cookie\<close>, ends in the \<open>success: false\<close> payload.
\<close>

definition login_failed :: "js_error \<Rightarrow> CallToolResult" where
  "login_failed e =
     \<lparr>content = [TextContent (JSON_stringify (JObj
        [(''success'', JBool False),
         (''error'', JStr (case e of Error m \<Rightarrow> m | McpError c m \<Rightarrow> m | NonError \<Rightarrow> ''Login failed''))]))]\<rparr>"

definition loginUser ::
  "client \<Rightarrow> string option \<Rightarrow> string option \<Rightarrow> server \<Rightarrow> (js_error + CallToolResult) \<times> server" where
  "loginUser http username password s =
     (case makePostRequest http ''/user_login_v2''
             [(''userName'', str username), (''password'', str password)] s of
        (Inl e, s1) \<Rightarrow> (Inr (login_failed e), s1)
      | (Inr loginData, s1) \<Rightarrow>
          (case get_property loginData ''cookie'' of
             Inl e \<Rightarrow> (Inr (login_failed e), s1)
           | Inr cookie \<Rightarrow>
               (let s2 = (if truthy_val cookie then s1\<lparr>loginCookie := the cookie\<rparr> else s1)
                in case get_property loginData ''user'' of
                     Inl e \<Rightarrow> (Inr (login_failed e), s2)
                   | Inr user \<Rightarrow>
                       (Inr \<lparr>content = [TextContent (JSON_stringify (JObj
                          [(''success'', JBool True),
                           (''message'', JStr ''Login successful''),
                           (''user'', if truthy_val user then the user else JObj [])]))]\<rparr>, s2))))"

definition createTweet ::
  "client \<Rightarrow> string option \<Rightarrow> string option \<Rightarrow> server \<Rightarrow> (js_error + CallToolResult) \<times> server" where
  "createTweet http text' replyTo s =
     (if \<not> truthy (loginCookie s) then (Inl (Error ''Must login first before creating tweets''), s)
      else
        (let tweetData = [(''text'', str text')] @
               (if truthy_val (str replyTo) then [(''reply_to'', str replyTo)] else [])
         in envelope (makePostRequest http ''/create_tweet_v2'' tweetData s)))"

text \<open>
  The argument bag of a call, each field at the type the handler asserts for it
  (\<open>args.username as string\<close>, \<open>args.count as number\<close>); a field the bag does not have
  is \<open>None\<close>.
\<close>

record arguments =
  username :: "string option"
  user_id :: "string option"
  count :: "int option"
  query :: "string option"
  result_type :: "string option"
  tweet_id :: "string option"
  password :: "string option"
  text' :: "string option"
  reply_to :: "string option"

text \<open>The \<open>try\<close> block of the \<open>CallTool\<close> handler.\<close>

definition dispatch ::
  "client \<Rightarrow> string \<Rightarrow> arguments option \<Rightarrow> server \<Rightarrow> (js_error + CallToolResult) \<times> server" where
  "dispatch http name args s =
     (case args of
        None \<Rightarrow> (Inl (McpError InvalidParams ''Missing arguments''), s)
      | Some a \<Rightarrow>
          if name = ''get_user_by_username'' then getUserByUsername http (username a) s
          else if name = ''get_user_by_id'' then getUserById http (user_id a) s
          else if name = ''get_user_tweets'' then getUserTweets http (username a) (count a) s
          else if name = ''search_tweets'' then searchTweets http (query a) (count a) (result_type a) s
          else if name = ''get_tweet_by_id'' then getTweetById http (tweet_id a) s
          else if name = ''get_tweet_replies'' then getTweetReplies http (tweet_id a) (count a) s
          else if name = ''get_user_followers'' then getUserFollowers http (username a) (count a) s
          else if name = ''get_user_following'' then getUserFollowing http (username a) (count a) s
          else if name = ''search_users'' then searchUsers http (query a) (count a) s
          else if name = ''login_user'' then loginUser http (username a) (password a) s
          else if name = ''create_tweet'' then createTweet http (text' a) (reply_to a) s
          else (Inl (McpError MethodNotFound (''Unknown tool: '' @ name)), s))"

text \<open>The handler: its \<open>catch\<close> lets an \<open>McpError\<close> through and wraps everything else.\<close>

definition CallTool ::
  "client \<Rightarrow> string \<Rightarrow> arguments option \<Rightarrow> server \<Rightarrow> (js_error + CallToolResult) \<times> server" where
  "CallTool http name args s =
     (case dispatch http name args s of
        (Inr result, s') \<Rightarrow> (Inr result, s')
      | (Inl (McpError c m), s') \<Rightarrow> (Inl (McpError c m), s')
      | (Inl (Error m), s') \<Rightarrow> (Inl (McpError InternalError (''TwitterAPI.io error: '' @ m)), s')
      | (Inl NonError, s') \<Rightarrow>
          (Inl (McpError InternalError (''TwitterAPI.io error: '' @ ''Unknown error occurred'')), s'))"

section \<open>Sequences of calls\<close>

text \<open>
  The server handles one call after the other; each call meets an HTTP client that
  answers as the upstream does at that moment.
\<close>

fun run :: "(client \<times> string \<times> arguments option) list \<Rightarrow> server \<Rightarrow> server" where
  "run [] s = s"
| "run ((http, name, args) # calls) s = run calls (snd (CallTool http name args s))"

section \<open>The catalogue of the specification\<close>

text \<open>The eleven names the tool list registers.\<close>

definition operations :: "string list" where
  "operations = [''get_user_by_username'', ''get_user_by_id'', ''get_user_tweets'',
     ''search_tweets'', ''get_tweet_by_id'', ''get_tweet_replies'', ''get_user_followers'',
     ''get_user_following'', ''search_users'', ''login_user'', ''create_tweet'']"

text \<open>The operations that read: all but \<open>login_user\<close> and \<open>create_tweet\<close>.\<close>

definition read_operations :: "string list" where
  "read_operations = [''get_user_by_username'', ''get_user_by_id'', ''get_user_tweets'',
     ''search_tweets'', ''get_tweet_by_id'', ''get_tweet_replies'', ''get_user_followers'',
     ''get_user_following'', ''search_users'']"

text \<open>The operations with a \<open>count\<close>, with the maximum and the default documented for each.\<close>

definition count_operations :: "string list" where
  "count_operations = [''get_user_tweets'', ''search_tweets'', ''get_tweet_replies'',
     ''get_user_followers'', ''get_user_following'', ''search_users'']"

definition operation_max :: "string \<Rightarrow> int" where
  "operation_max name = (if name = ''search_users'' then 50 else 100)"

definition operation_default :: "string \<Rightarrow> int" where
  "operation_default name =
     (if name = ''get_user_followers'' \<or> name = ''get_user_following'' then 20 else 10)"

text \<open>
  The count the specification wants forwarded: the default when there is none, the smaller
  of the value and the maximum otherwise.
\<close>

definition forwarded_count :: "string \<Rightarrow> int option \<Rightarrow> int" where
  "forwarded_count name c =
     (case c of None \<Rightarrow> operation_default name | Some v \<Rightarrow> min v (operation_max name))"

text \<open>The cookie value an upstream outcome contains, if it contains one.\<close>

definition response_cookie :: "outcome \<Rightarrow> json option" where
  "response_cookie out =
     (case out of
        Response (JObj kvs) \<Rightarrow>
          (case map_of kvs ''cookie'' of Some c \<Rightarrow> if truthy c then Some c else None | None \<Rightarrow> None)
      | _ \<Rightarrow> None)"

text \<open>The session states of the specification.\<close>

definition authenticated :: "server \<Rightarrow> bool" where
  "authenticated s = truthy (loginCookie s)"


text \<open>An argument bag with no field.\<close>

definition no_arguments :: arguments where
  "no_arguments =
     \<lparr>username = None, user_id = None, count = None, query = None, result_type = None,
      tweet_id = None, password = None, text' = None, reply_to = None\<rparr>"

text \<open>Whether a document is an object with an entry for the key.\<close>

definition has_field :: "json \<Rightarrow> string \<Rightarrow> bool" where
  "has_field d k = (case d of JObj kvs \<Rightarrow> k \<in> fst ` set kvs | _ \<Rightarrow> False)"

section \<open>The request and the reply of each operation\<close>

text \<open>The request \<open>makeRequest\<close> and \<open>makePostRequest\<close> build.\<close>

definition get_request :: "server \<Rightarrow> string \<Rightarrow> (string \<times> jsval) list \<Rightarrow> request" where
  "get_request s ep ps = \<lparr>verb = GET, endpoint = ep, headers = config_headers s, params = ps, data = []\<rparr>"

definition post_request :: "server \<Rightarrow> string \<Rightarrow> (string \<times> jsval) list \<Rightarrow> request" where
  "post_request s ep body = \<lparr>verb = POST, endpoint = ep, headers = config_headers s, params = [], data = body\<rparr>"

definition login_request :: "server \<Rightarrow> arguments \<Rightarrow> request" where
  "login_request s a =
     post_request s ''/user_login_v2'' [(''userName'', str (username a)), (''password'', str (password a))]"

text \<open>The \<open>catch\<close> clause of the handler.\<close>

definition wrap :: "js_error \<Rightarrow> js_error" where
  "wrap e = (case e of McpError c m \<Rightarrow> McpError c m
     | Error m \<Rightarrow> McpError InternalError (''TwitterAPI.io error: '' @ m)
     | NonError \<Rightarrow> McpError InternalError ''TwitterAPI.io error: Unknown error occurred'')"

text \<open>What a call returns once its one request \<open>r\<close> is built.\<close>

definition reply :: "client \<Rightarrow> request \<Rightarrow> server \<Rightarrow> (js_error + CallToolResult) \<times> server" where
  "reply http r s =
     (case http r of
        Response d \<Rightarrow> Inr \<lparr>content = [TextContent (JSON_stringify d)]\<rparr>
      | AxiosError response message \<Rightarrow> Inl (wrap (api_error response message))
      | OtherError e \<Rightarrow> Inl (wrap (rethrow e)),
      s\<lparr>sent := sent s @ [r]\<rparr>)"

definition login_succeeded :: "json \<Rightarrow> CallToolResult" where
  "login_succeeded d =
     \<lparr>content = [TextContent (JSON_stringify (JObj
        [(''success'', JBool True),
         (''message'', JStr ''Login successful''),
         (''user'', if truthy_val (opt_property (Some d) ''user'')
                    then the (opt_property (Some d) ''user'') else JObj [])]))]\<rparr>"

section \<open>Inputs for the examples\<close>

definition followers_500 :: arguments where
  "followers_500 = no_arguments\<lparr>username := Some ''jack'', count := Some 500\<rparr>"

definition answers :: "json \<Rightarrow> client" where
  "answers d = (\<lambda>r. Response d)"

definition credentials :: arguments where
  "credentials = no_arguments\<lparr>username := Some ''jack'', password := Some ''secret''\<rparr>"

definition hello :: arguments where
  "hello = no_arguments\<lparr>text' := Some ''hello''\<rparr>"

definition unauthorized :: client where
  "unauthorized =
     (\<lambda>r. AxiosError (Some (401, JObj [(''error'', JStr ''Unauthorized'')]))
            ''Request failed with status code 401'')"

definition network_down :: client where
  "network_down = (\<lambda>r. AxiosError None ''Network Error'')"

definition logged_in :: server where
  "logged_in = (init ''key'')\<lparr>loginCookie := JStr ''auth_token=abc''\<rparr>"

definition session_cookie :: json where
  "session_cookie = JStr ''auth_token=abc''"

definition grants_cookie :: client where
  "grants_cookie = answers (JObj [(''cookie'', session_cookie), (''user'', JObj [(''id'', JStr ''12'')])])"


definition profile :: json where
  "profile = JObj [(''data'', JObj [(''id'', JStr ''12''), (''userName'', JStr ''jack''),
                                    (''followers'', JNum 7)])]"

definition lookup_jack :: arguments where
  "lookup_jack = no_arguments\<lparr>username := Some ''jack''\<rparr>"

section \<open>Facts about the handler\<close>

lemma CallTool_wrap:
  "CallTool http name args s =
     (case dispatch http name args s of (Inr r, s') \<Rightarrow> (Inr r, s') | (Inl e, s') \<Rightarrow> (Inl (wrap e), s'))"
  by (simp add: CallTool_def wrap_def split: prod.split sum.split js_error.split)

lemma CallTool_envelope_get:
  "dispatch http name args s = envelope (makeRequest http ep ps s) \<Longrightarrow>
   CallTool http name args s = reply http (get_request s ep ps) s"
  by (simp add: CallTool_wrap envelope_def makeRequest_def get_request_def reply_def Let_def
      split: outcome.split)

lemma CallTool_envelope_post:
  "dispatch http name args s = envelope (makePostRequest http ep body s) \<Longrightarrow>
   CallTool http name args s = reply http (post_request s ep body) s"
  by (simp add: CallTool_wrap envelope_def makePostRequest_def post_request_def reply_def Let_def
      split: outcome.split)

lemma CallTool_None:
  "CallTool http name None s = (Inl (McpError InvalidParams ''Missing arguments''), s)"
  by (simp add: CallTool_def dispatch_def)

lemma CallTool_unknown:
  "name \<notin> set operations \<Longrightarrow>
   CallTool http name (Some a) s = (Inl (McpError MethodNotFound (''Unknown tool: '' @ name)), s)"
  by (simp add: CallTool_def dispatch_def operations_def)

lemma CallTool_get_user_by_username:
  "CallTool http ''get_user_by_username'' (Some a) s =
     reply http (get_request s ''/user/info'' [(''userName'', str (username a))]) s"
  by (rule CallTool_envelope_get) (simp add: dispatch_def getUserByUsername_def)

lemma CallTool_get_user_by_id:
  "CallTool http ''get_user_by_id'' (Some a) s =
     reply http (get_request s ''/user/info'' [(''user_id'', str (user_id a))]) s"
  by (rule CallTool_envelope_get) (simp add: dispatch_def getUserById_def)

lemma CallTool_get_user_tweets:
  "CallTool http ''get_user_tweets'' (Some a) s =
     reply http (get_request s ''/user/last_tweets''
       [(''userName'', str (username a)),
        (''count'', Some (JNum (min (case count a of None \<Rightarrow> 10 | Some c \<Rightarrow> c) 100)))]) s"
  by (rule CallTool_envelope_get) (simp add: dispatch_def getUserTweets_def)

lemma CallTool_search_tweets:
  "CallTool http ''search_tweets'' (Some a) s =
     reply http (get_request s ''/tweet/advanced_search''
       [(''query'', str (query a)),
        (''count'', Some (JNum (min (case count a of None \<Rightarrow> 10 | Some c \<Rightarrow> c) 100))),
        (''result_type'', Some (JStr (case result_type a of None \<Rightarrow> ''recent'' | Some t \<Rightarrow> t)))]) s"
  by (rule CallTool_envelope_get) (simp add: dispatch_def searchTweets_def)

lemma CallTool_get_tweet_by_id:
  "CallTool http ''get_tweet_by_id'' (Some a) s =
     reply http (get_request s ''/tweets'' [(''tweet_id'', str (tweet_id a))]) s"
  by (rule CallTool_envelope_get) (simp add: dispatch_def getTweetById_def)

lemma CallTool_get_tweet_replies:
  "CallTool http ''get_tweet_replies'' (Some a) s =
     reply http (get_request s ''/tweet/replies''
       [(''id'', str (tweet_id a)),
        (''count'', Some (JNum (min (case count a of None \<Rightarrow> 10 | Some c \<Rightarrow> c) 100)))]) s"
  by (rule CallTool_envelope_get) (simp add: dispatch_def getTweetReplies_def)

lemma CallTool_get_user_followers:
  "CallTool http ''get_user_followers'' (Some a) s =
     reply http (get_request s ''/user/followers''
       [(''userName'', str (username a)),
        (''count'', Some (JNum (min (case count a of None \<Rightarrow> 20 | Some c \<Rightarrow> c) 100)))]) s"
  by (rule CallTool_envelope_get) (simp add: dispatch_def getUserFollowers_def)

lemma CallTool_get_user_following:
  "CallTool http ''get_user_following'' (Some a) s =
     reply http (get_request s ''/user/followings''
       [(''userName'', str (username a)),
        (''count'', Some (JNum (min (case count a of None \<Rightarrow> 20 | Some c \<Rightarrow> c) 100)))]) s"
  by (rule CallTool_envelope_get) (simp add: dispatch_def getUserFollowing_def)

lemma CallTool_search_users:
  "CallTool http ''search_users'' (Some a) s =
     reply http (get_request s ''/user/search''
       [(''query'', str (query a)),
        (''count'', Some (JNum (min (case count a of None \<Rightarrow> 10 | Some c \<Rightarrow> c) 50)))]) s"
  by (rule CallTool_envelope_get) (simp add: dispatch_def searchUsers_def)

lemma CallTool_create_tweet:
  "CallTool http ''create_tweet'' (Some a) s =
     (if \<not> truthy (loginCookie s)
      then (Inl (McpError InternalError
              ''TwitterAPI.io error: Must login first before creating tweets''), s)
      else reply http (post_request s ''/create_tweet_v2''
             ([(''text'', str (text' a))] @
              (if truthy_val (str (reply_to a)) then [(''reply_to'', str (reply_to a))] else []))) s)"
proof (cases "truthy (loginCookie s)")
  case True
  have "CallTool http ''create_tweet'' (Some a) s =
     reply http (post_request s ''/create_tweet_v2''
             ([(''text'', str (text' a))] @
              (if truthy_val (str (reply_to a)) then [(''reply_to'', str (reply_to a))] else []))) s"
    by (rule CallTool_envelope_post) (simp add: dispatch_def createTweet_def True)
  with True show ?thesis by simp
next
  case False
  then show ?thesis
    by (simp add: CallTool_def dispatch_def createTweet_def)
qed

lemma get_property_cases:
  "get_property d k =
     (if d = JNull
      then Inl (Error (''Cannot read properties of null (reading '' @ [CHR 0x27] @ k @ [CHR 0x27] @ '')''))
      else Inr (opt_property (Some d) k))"
  by (cases d) simp_all

lemma CallTool_login_user:
  "CallTool http ''login_user'' (Some a) s =
     (case http (login_request s a) of
        Response d \<Rightarrow>
          if d = JNull
          then (Inr (login_failed (Error (''Cannot read properties of null (reading '' @ [CHR 0x27] @ ''cookie'' @ [CHR 0x27] @ '')''))),
                s\<lparr>sent := sent s @ [login_request s a]\<rparr>)
          else (Inr (login_succeeded d),
                if truthy_val (opt_property (Some d) ''cookie'')
                then s\<lparr>sent := sent s @ [login_request s a],
                       loginCookie := the (opt_property (Some d) ''cookie'')\<rparr>
                else s\<lparr>sent := sent s @ [login_request s a]\<rparr>)
      | AxiosError response message \<Rightarrow>
          (Inr (login_failed (api_error response message)), s\<lparr>sent := sent s @ [login_request s a]\<rparr>)
      | OtherError e \<Rightarrow>
          (Inr (login_failed (rethrow e)), s\<lparr>sent := sent s @ [login_request s a]\<rparr>))"
  by (simp add: CallTool_def dispatch_def loginUser_def makePostRequest_def login_request_def
      post_request_def login_succeeded_def get_property_cases Let_def split: outcome.split)

lemma sent_reply: "sent (snd (reply http r s)) = sent s @ [r]"
  by (simp add: reply_def)

lemma fst_reply_Response:
  "http r = Response d \<Longrightarrow> fst (reply http r s) = Inr \<lparr>content = [TextContent (JSON_stringify d)]\<rparr>"
  by (simp add: reply_def)

lemma params_get_request: "params (get_request s ep ps) = ps"
  by (simp add: get_request_def)

lemma count_operations_cases:
  assumes "name \<in> set count_operations"
  shows "name = ''get_user_tweets'' \<or> name = ''search_tweets''
    \<or> name = ''get_tweet_replies'' \<or> name = ''get_user_followers''
    \<or> name = ''get_user_following'' \<or> name = ''search_users''"
  using assms by (simp add: count_operations_def)

lemma reply_count: "\<exists>r. sent (snd (reply http (get_request s ep ps) s)) = sent s @ [r]
           \<and> map_of (params r) ''count'' = Some (Some (JNum n))
           \<and> (\<forall>d. http r = Response d \<longrightarrow>
                fst (reply http (get_request s ep ps) s) = Inr \<lparr>content = [TextContent (JSON_stringify d)]\<rparr>)"
    if "map_of ps ''count'' = Some (Some (JNum n))" for ep ps n
    using that by (simp add: sent_reply params_get_request fst_reply_Response)

lemma forwarded_count_100_10:
  "name \<noteq> ''search_users'' \<Longrightarrow> name \<noteq> ''get_user_followers'' \<Longrightarrow> name \<noteq> ''get_user_following'' \<Longrightarrow>
   forwarded_count name c = min (case c of None \<Rightarrow> 10 | Some v \<Rightarrow> v) 100"
  by (simp add: forwarded_count_def operation_max_def operation_default_def split: option.split)

lemma forwarded_count_followers:
  "forwarded_count ''get_user_followers'' c = min (case c of None \<Rightarrow> 20 | Some v \<Rightarrow> v) 100"
  by (simp add: forwarded_count_def operation_max_def operation_default_def split: option.split)

lemma forwarded_count_following:
  "forwarded_count ''get_user_following'' c = min (case c of None \<Rightarrow> 20 | Some v \<Rightarrow> v) 100"
  by (simp add: forwarded_count_def operation_max_def operation_default_def split: option.split)

lemma forwarded_count_search_users:
  "forwarded_count ''search_users'' c = min (case c of None \<Rightarrow> 10 | Some v \<Rightarrow> v) 50"
  by (simp add: forwarded_count_def operation_max_def operation_default_def split: option.split)

lemma loginCookie_reply: "loginCookie (snd (reply http r s)) = loginCookie s"
  by (simp add: reply_def)

lemma headers_get_request: "headers (get_request s ep ps) = config_headers s"
  by (simp add: get_request_def)

lemma headers_post_request: "headers (post_request s ep body) = config_headers s"
  by (simp add: post_request_def)

lemma operations_cases:
  "name \<in> set operations \<Longrightarrow>
   name = ''get_user_by_username'' \<or> name = ''get_user_by_id'' \<or> name = ''get_user_tweets''
   \<or> name = ''search_tweets'' \<or> name = ''get_tweet_by_id'' \<or> name = ''get_tweet_replies''
   \<or> name = ''get_user_followers'' \<or> name = ''get_user_following'' \<or> name = ''search_users''
   \<or> name = ''login_user'' \<or> name = ''create_tweet''"
  by (simp add: operations_def)

lemma read_operations_cases:
  "name \<in> set read_operations \<Longrightarrow>
   name = ''get_user_by_username'' \<or> name = ''get_user_by_id'' \<or> name = ''get_user_tweets''
   \<or> name = ''search_tweets'' \<or> name = ''get_tweet_by_id'' \<or> name = ''get_tweet_replies''
   \<or> name = ''get_user_followers'' \<or> name = ''get_user_following'' \<or> name = ''search_users''"
  by (simp add: read_operations_def)

lemma read_reply:
  assumes "name \<in> set read_operations"
  shows "\<exists>ep ps. CallTool http name (Some a) s = reply http (get_request s ep ps) s"
  using read_operations_cases [OF assms]
  by (elim disjE)
     (blast intro: CallTool_get_user_by_username CallTool_get_user_by_id CallTool_get_user_tweets
        CallTool_search_tweets CallTool_get_tweet_by_id CallTool_get_tweet_replies
        CallTool_get_user_followers CallTool_get_user_following CallTool_search_users)+

text \<open>
  Every call is a login, or the reply to one request that carries the configured
  headers, or a failure raised before any request.
\<close>

lemma CallTool_cases:
  "(name = ''login_user'' \<and> args \<noteq> None)
   \<or> (name \<noteq> ''login_user'' \<and>
       (\<exists>r. headers r = config_headers s \<and> CallTool http name args s = reply http r s))
   \<or> (\<exists>c m. CallTool http name args s = (Inl (McpError c m), s))"
proof (cases args)
  case None
  then show ?thesis by (simp add: CallTool_None)
next
  case (Some a)
  have read: ?thesis if r: "name \<in> set read_operations"
  proof -
    from read_reply [OF r] obtain ep ps
      where "CallTool http name (Some a) s = reply http (get_request s ep ps) s" by blast
    moreover from read_operations_cases [OF r] have "name \<noteq> ''login_user''"
      by (elim disjE) simp_all
    ultimately show ?thesis unfolding Some using headers_get_request by blast
  qed
  show ?thesis
  proof (cases "name \<in> set operations")
    case False
    then show ?thesis by (simp add: Some CallTool_unknown)
  next
    case True
    from operations_cases [OF True] show ?thesis
    proof (elim disjE)
      assume "name = ''login_user''"
      then show ?thesis by (simp add: Some)
    next
      assume n: "name = ''create_tweet''"
      show ?thesis
      proof (cases "truthy (loginCookie s)")
        case True
        then show ?thesis unfolding n Some
          by (simp add: CallTool_create_tweet) (blast intro: headers_post_request)
      next
        case False
        then show ?thesis unfolding n Some by (simp add: CallTool_create_tweet)
      qed
    qed (rule read, simp add: read_operations_def)+
  qed
qed

lemma sent_CallTool_login:
  "sent (snd (CallTool http ''login_user'' (Some a) s)) = sent s @ [login_request s a]"
  by (simp add: CallTool_login_user split: outcome.split)

lemma wrap_api_error:
  "wrap (api_error response message) =
     McpError InternalError (''TwitterAPI.io error: '' @ ''TwitterAPI.io API error ('' @
       Number_toString (int (case response of Some (status, d) \<Rightarrow> if status \<noteq> 0 then status else 500
                             | None \<Rightarrow> 500)) @ ''): '' @
       (if truthy_val (opt_property (map_option snd response) ''error'')
        then ToString (the (opt_property (map_option snd response) ''error'')) else message))"
  by (simp add: wrap_def api_error_def Let_def)

lemma wrap_rethrow: "\<exists>m. wrap (rethrow e) = McpError InternalError m"
  by (cases e) (simp_all add: wrap_def rethrow_def)

lemma login_failed_message:
  "\<exists>m. login_failed e =
     \<lparr>content = [TextContent (JSON_stringify (JObj [(''success'', JBool False), (''error'', JStr m)]))]\<rparr>"
  by (simp add: login_failed_def)

lemma fst_reply_failure:
  "\<forall>d. http r \<noteq> Response d \<Longrightarrow> \<exists>m. fst (reply http r s) = Inl (McpError InternalError m)"
  by (cases "http r") (simp_all add: reply_def wrap_api_error wrap_rethrow)

lemma local_failure_sent:
  "CallTool http name args s = (Inl (McpError c m), s) \<Longrightarrow>
   sent (snd (CallTool http name args s)) \<noteq> sent s @ [r]"
  by simp

lemma headers_login_request: "headers (login_request s a) = config_headers s"
  by (simp add: login_request_def headers_post_request)

lemma issued_headers:
  assumes "sent (snd (CallTool http name args s)) = sent s @ rs" and "r \<in> set rs"
  shows "headers r = config_headers s"
  using CallTool_cases [of name args s http]
proof (elim disjE conjE exE)
  assume "name = ''login_user''" and "args \<noteq> None"
  then obtain a where a: "args = Some a" and n: "name = ''login_user''" by blast
  from assms show ?thesis unfolding a n
    by (simp add: sent_CallTool_login) (auto simp: headers_login_request)
next
  fix r'
  assume h: "headers r' = config_headers s" and c: "CallTool http name args s = reply http r' s"
  from assms h show ?thesis by (simp add: c sent_reply) auto
next
  fix c m
  assume "CallTool http name args s = (Inl (McpError c m), s)"
  with assms show ?thesis by simp
qed

lemma map_of_config_headers:
  "map_of (config_headers s) ''Cookie'' = (if truthy (loginCookie s) then Some (loginCookie s) else None)"
  "map_of (config_headers s) ''x-api-key'' = (if apiKey s \<noteq> [] then Some (JStr (apiKey s)) else None)"
  by (simp_all add: config_headers_def)

lemma response_cookie_Response:
  "response_cookie (Response d) =
     (if truthy_val (opt_property (Some d) ''cookie'') then opt_property (Some d) ''cookie'' else None)"
  by (cases d) (simp_all add: response_cookie_def split: option.split)

lemma response_cookie_failure [simp]:
  "response_cookie (AxiosError response message) = None"
  "response_cookie (OtherError e) = None"
  by (simp_all add: response_cookie_def)

lemma response_cookie_truthy: "response_cookie out = Some c \<Longrightarrow> truthy c"
  by (cases out) (auto simp: response_cookie_Response split: if_splits)

lemma loginCookie_login:
  "loginCookie (snd (CallTool http ''login_user'' (Some a) s)) =
     (case response_cookie (http (login_request s a)) of Some c \<Rightarrow> c | None \<Rightarrow> loginCookie s)"
proof (cases "http (login_request s a)")
  case (Response d)
  show ?thesis
    by (cases "opt_property (Some d) ''cookie''")
       (auto simp: CallTool_login_user response_cookie_Response Response)
qed (simp_all add: CallTool_login_user)

lemma loginCookie_CallTool:
  "loginCookie (snd (CallTool http name args s)) =
     (if name = ''login_user'' \<and> args \<noteq> None
      then (case response_cookie (http (last (sent (snd (CallTool http name args s))))) of
              Some c \<Rightarrow> c | None \<Rightarrow> loginCookie s)
      else loginCookie s)"
  using CallTool_cases [of name args s http]
proof (elim disjE conjE exE)
  assume "name = ''login_user''" and "args \<noteq> None"
  then obtain a where "args = Some a" and "name = ''login_user''" by blast
  then show ?thesis by (simp add: sent_CallTool_login loginCookie_login)
next
  fix r
  assume "name \<noteq> ''login_user''" and "CallTool http name args s = reply http r s"
  then show ?thesis by (simp add: loginCookie_reply)
next
  fix c m
  assume c: "CallTool http name args s = (Inl (McpError c m), s)"
  have "args \<noteq> None \<Longrightarrow> name \<noteq> ''login_user''"
  proof
    assume "args \<noteq> None" and n: "name = ''login_user''"
    then obtain a where a: "args = Some a" by blast
    from c have "sent (snd (CallTool http name args s)) = sent s" by simp
    then show False unfolding n a by (simp add: sent_CallTool_login)
  qed
  with c show ?thesis by auto
qed

lemma authenticated_CallTool:
  "authenticated s \<Longrightarrow> authenticated (snd (CallTool http name args s))"
  unfolding authenticated_def
  by (subst loginCookie_CallTool) (auto split: option.split dest: response_cookie_truthy)

lemma authenticated_run: "authenticated s \<Longrightarrow> authenticated (run calls s)"
proof (induction calls arbitrary: s)
  case Nil
  then show ?case by simp
next
  case (Cons call calls)
  obtain http name args where "call = (http, name, args)" by (cases call)
  with Cons show ?case by (simp add: authenticated_CallTool)
qed






section \<open>The claims\<close>

text \<open>
  C1: each operation with a count issues one request whose \<open>count\<close> parameter is the
  documented default when the call gives none, and the smaller of the given value and the
  operation's maximum otherwise; however large the count is the call is not rejected, and
  what the upstream answers is returned.
\<close>

theorem count_forwarded:
  assumes "name \<in> set count_operations"
  shows "\<exists>r. sent (snd (CallTool http name (Some a) s)) = sent s @ [r]
           \<and> map_of (params r) ''count'' = Some (Some (JNum (forwarded_count name (count a))))
           \<and> (\<forall>d. http r = Response d \<longrightarrow>
                fst (CallTool http name (Some a) s) = Inr \<lparr>content = [TextContent (JSON_stringify d)]\<rparr>)"
  using count_operations_cases [OF assms]
proof (elim disjE)
  assume n: "name = ''get_user_tweets''"
  show ?thesis
    unfolding n CallTool_get_user_tweets
    by (rule reply_count) (simp add: forwarded_count_100_10)
next
  assume n: "name = ''search_tweets''"
  show ?thesis
    unfolding n CallTool_search_tweets
    by (rule reply_count) (simp add: forwarded_count_100_10)
next
  assume n: "name = ''get_tweet_replies''"
  show ?thesis
    unfolding n CallTool_get_tweet_replies
    by (rule reply_count) (simp add: forwarded_count_100_10)
next
  assume n: "name = ''get_user_followers''"
  show ?thesis
    unfolding n CallTool_get_user_followers
    by (rule reply_count) (simp add: forwarded_count_followers)
next
  assume n: "name = ''get_user_following''"
  show ?thesis
    unfolding n CallTool_get_user_following
    by (rule reply_count) (simp add: forwarded_count_following)
next
  assume n: "name = ''search_users''"
  show ?thesis
    unfolding n CallTool_search_users
    by (rule reply_count) (simp add: forwarded_count_search_users)
qed

theorem count_forwarded_witness:
  "''get_user_followers'' \<in> set count_operations \<and>
   (\<exists>r. sent (snd (CallTool (answers JNull) ''get_user_followers'' (Some followers_500) (init ''key'')))
           = sent (init ''key'') @ [r]
      \<and> map_of (params r) ''count'' = Some (Some (JNum 100)))"
proof -
  have h: "''get_user_followers'' \<in> set count_operations"
    by (simp add: count_operations_def)
  have c: "forwarded_count ''get_user_followers'' (count followers_500) = 100"
    by (simp add: forwarded_count_def operation_max_def followers_500_def)
  from count_forwarded [OF h, of "answers JNull" followers_500 "init ''key''"] h
  show ?thesis unfolding c by blast
qed

text \<open>
  C2 (as amended): while no cookie is held a \<open>create_tweet\<close> call fails without any
  upstream request and leaves the server as it was. With an argument bag the failure has the
  code \<open>InternalError\<close> and the message of the login guard; without one it is the
  \<open>InvalidParams\<close> failure of every call that has no arguments.
\<close>

theorem create_tweet_unauthenticated:
  assumes "\<not> authenticated s"
  shows "CallTool http ''create_tweet'' args s =
           (Inl (case args of
                   None \<Rightarrow> McpError InvalidParams ''Missing arguments''
                 | Some a \<Rightarrow> McpError InternalError
                     ''TwitterAPI.io error: Must login first before creating tweets''), s)"
proof (cases args)
  case None
  then show ?thesis by (simp add: CallTool_None)
next
  case (Some a)
  with assms show ?thesis by (simp add: CallTool_create_tweet authenticated_def)
qed

theorem create_tweet_unauthenticated_witness:
  "\<not> authenticated (init ''key'') \<and>
   CallTool unauthorized ''create_tweet'' (Some hello) (init ''key'') =
     (Inl (McpError InternalError ''TwitterAPI.io error: Must login first before creating tweets''),
      init ''key'')"
proof -
  have h: "\<not> authenticated (init ''key'')" by (simp add: authenticated_def init_def)
  from create_tweet_unauthenticated [OF h, of unauthorized "Some hello"] h
  show ?thesis by simp
qed

text \<open>
  C2 as stated fails: the failure of the login guard and the failure of an upstream
  request carry the same code.
\<close>

theorem create_tweet_kind_counterexample:
  "\<not> authenticated (init ''key'') \<and>
   fst (CallTool unauthorized ''create_tweet'' (Some hello) (init ''key'')) =
     Inl (McpError InternalError ''TwitterAPI.io error: Must login first before creating tweets'') \<and>
   fst (CallTool unauthorized ''get_tweet_by_id'' (Some no_arguments) (init ''key'')) =
     Inl (McpError InternalError
       ''TwitterAPI.io error: TwitterAPI.io API error (401): Unauthorized'')"
  by (simp add: authenticated_def init_def CallTool_create_tweet CallTool_get_tweet_by_id
      reply_def unauthorized_def wrap_api_error Number_toString_def decimal.simps digit_def)

text \<open>
  C3: when the request of a \<open>login_user\<close> call fails, the call returns a result whose
  payload is \<open>{success: false, error: message}\<close>; when the request of any other
  operation fails, the call raises.
\<close>

theorem login_failure_enveloped:
  assumes "sent (snd (CallTool http name args s)) = sent s @ [r]"
    and "\<forall>d. http r \<noteq> Response d"
  shows "if name = ''login_user''
         then \<exists>m. fst (CallTool http name args s) =
                Inr \<lparr>content = [TextContent (JSON_stringify
                  (JObj [(''success'', JBool False), (''error'', JStr m)]))]\<rparr>
         else \<exists>m. fst (CallTool http name args s) = Inl (McpError InternalError m)"
  using CallTool_cases [of name args s http]
proof (elim disjE conjE exE)
  assume n: "name = ''login_user''" and "args \<noteq> None"
  then obtain a where a: "args = Some a" by blast
  from assms(1) have r: "r = login_request s a"
    unfolding n a by (simp add: sent_CallTool_login)
  from assms(2) show ?thesis
    unfolding n a r
    by (cases "http (login_request s a)")
       (simp_all add: CallTool_login_user login_failed_message)
next
  fix r'
  assume n: "name \<noteq> ''login_user''" and c: "CallTool http name args s = reply http r' s"
  from assms(1) have "r' = r" by (simp add: c sent_reply)
  with assms(2) n show ?thesis by (simp add: c fst_reply_failure)
next
  fix c m
  assume "CallTool http name args s = (Inl (McpError c m), s)"
  from local_failure_sent [OF this] assms(1) show ?thesis by blast
qed

theorem login_failure_enveloped_witness:
  "sent (snd (CallTool unauthorized ''login_user'' (Some credentials) (init ''key'')))
     = sent (init ''key'') @ [login_request (init ''key'') credentials]
   \<and> (\<forall>d. unauthorized (login_request (init ''key'') credentials) \<noteq> Response d)
   \<and> (\<exists>m. fst (CallTool unauthorized ''login_user'' (Some credentials) (init ''key'')) =
          Inr \<lparr>content = [TextContent (JSON_stringify
            (JObj [(''success'', JBool False), (''error'', JStr m)]))]\<rparr>)"
proof -
  have h1: "sent (snd (CallTool unauthorized ''login_user'' (Some credentials) (init ''key'')))
     = sent (init ''key'') @ [login_request (init ''key'') credentials]"
    by (rule sent_CallTool_login)
  have h2: "\<forall>d. unauthorized (login_request (init ''key'') credentials) \<noteq> Response d"
    by (simp add: unauthorized_def)
  from login_failure_enveloped [OF h1 h2] h1 h2 show ?thesis by simp
qed




text \<open>
  C5: every request a call issues carries the \<open>Cookie\<close> header with the stored cookie
  when one is held at that moment, and no such header otherwise, whatever the operation;
  it carries \<open>x-api-key\<close> exactly when the configured key is not empty. After a login
  whose response contains a cookie, the request of a following \<open>create_tweet\<close> carries
  that cookie.
\<close>

theorem credentials_attached:
  "(sent (snd (CallTool http name args s)) = sent s @ rs \<and> r \<in> set rs \<longrightarrow>
      map_of (headers r) ''Cookie'' = (if authenticated s then Some (loginCookie s) else None)
      \<and> map_of (headers r) ''x-api-key'' = (if apiKey s \<noteq> [] then Some (JStr (apiKey s)) else None))
   \<and> (response_cookie (http (last (sent (snd (CallTool http ''login_user'' (Some a) s))))) = Some c \<longrightarrow>
        (\<exists>r2. sent (snd (CallTool http2 ''create_tweet'' (Some b)
                       (snd (CallTool http ''login_user'' (Some a) s))))
                = sent (snd (CallTool http ''login_user'' (Some a) s)) @ [r2]
           \<and> verb r2 = POST \<and> endpoint r2 = ''/create_tweet_v2''
           \<and> map_of (headers r2) ''Cookie'' = Some c))"
proof (intro conjI impI)
  assume h: "sent (snd (CallTool http name args s)) = sent s @ rs \<and> r \<in> set rs"
  then have "headers r = config_headers s" using issued_headers by blast
  then show "map_of (headers r) ''Cookie'' = (if authenticated s then Some (loginCookie s) else None)"
    and "map_of (headers r) ''x-api-key'' = (if apiKey s \<noteq> [] then Some (JStr (apiKey s)) else None)"
    by (simp_all add: map_of_config_headers authenticated_def)
next
  let ?s1 = "snd (CallTool http ''login_user'' (Some a) s)"
  assume "response_cookie (http (last (sent ?s1))) = Some c"
  then have rc: "response_cookie (http (login_request s a)) = Some c"
    by (simp add: sent_CallTool_login)
  then have c: "loginCookie ?s1 = c" by (simp add: loginCookie_login)
  from rc have t: "truthy c" by (rule response_cookie_truthy)
  let ?r2 = "post_request ?s1 ''/create_tweet_v2''
             ([(''text'', str (text' b))] @
              (if truthy_val (str (reply_to b)) then [(''reply_to'', str (reply_to b))] else []))"
  have "CallTool http2 ''create_tweet'' (Some b) ?s1 = reply http2 ?r2 ?s1"
    using t c by (simp add: CallTool_create_tweet)
  then have "sent (snd (CallTool http2 ''create_tweet'' (Some b) ?s1)) = sent ?s1 @ [?r2]"
    by (simp add: sent_reply)
  moreover have "verb ?r2 = POST" "endpoint ?r2 = ''/create_tweet_v2''"
    by (simp_all add: post_request_def)
  moreover have "map_of (headers ?r2) ''Cookie'' = Some c"
    using t c by (simp add: headers_post_request map_of_config_headers)
  ultimately show "\<exists>r2. sent (snd (CallTool http2 ''create_tweet'' (Some b) ?s1)) = sent ?s1 @ [r2]
           \<and> verb r2 = POST \<and> endpoint r2 = ''/create_tweet_v2''
           \<and> map_of (headers r2) ''Cookie'' = Some c"
    by blast
qed

theorem credentials_attached_witness:
  "sent (snd (CallTool grants_cookie ''login_user'' (Some credentials) (init ''key'')))
     = sent (init ''key'') @ [login_request (init ''key'') credentials]
   \<and> login_request (init ''key'') credentials \<in> set [login_request (init ''key'') credentials]
   \<and> map_of (headers (login_request (init ''key'') credentials)) ''Cookie'' = None
   \<and> map_of (headers (login_request (init ''key'') credentials)) ''x-api-key'' = Some (JStr ''key'')
   \<and> response_cookie (grants_cookie (last (sent (snd
         (CallTool grants_cookie ''login_user'' (Some credentials) (init ''key''))))))
       = Some session_cookie
   \<and> (\<exists>r2. sent (snd (CallTool unauthorized ''create_tweet'' (Some hello)
                  (snd (CallTool grants_cookie ''login_user'' (Some credentials) (init ''key'')))))
             = sent (snd (CallTool grants_cookie ''login_user'' (Some credentials) (init ''key''))) @ [r2]
          \<and> verb r2 = POST \<and> endpoint r2 = ''/create_tweet_v2''
          \<and> map_of (headers r2) ''Cookie'' = Some session_cookie)"
proof -
  let ?r = "login_request (init ''key'') credentials"
  have h1: "sent (snd (CallTool grants_cookie ''login_user'' (Some credentials) (init ''key'')))
     = sent (init ''key'') @ [?r]"
    by (rule sent_CallTool_login)
  have h2: "?r \<in> set [?r]" by simp
  have h3: "response_cookie (grants_cookie (last (sent (snd
         (CallTool grants_cookie ''login_user'' (Some credentials) (init ''key''))))))
       = Some session_cookie"
    by (simp add: h1 grants_cookie_def answers_def response_cookie_def session_cookie_def)
  have k: "\<not> authenticated (init ''key'')" "apiKey (init ''key'') = ''key''"
    by (simp_all add: authenticated_def init_def)
  from credentials_attached [where http = grants_cookie and name = "''login_user''"
      and args = "Some credentials" and s = "init ''key''" and rs = "[?r]" and r = ?r
      and a = credentials and c = session_cookie and ?http2.0 = unauthorized and b = hello]
    h1 h2 h3 k
  show ?thesis by simp
qed

text \<open>
  C6: a call changes the stored cookie exactly when it is a \<open>login_user\<close> call whose
  request gets a response that contains a cookie value, and then that value is stored,
  over any earlier one; and once a cookie is held, one is held after every further
  sequence of calls.
\<close>

theorem cookie_lifecycle:
  "loginCookie (snd (CallTool http name args s)) =
     (if name = ''login_user'' \<and> args \<noteq> None
      then (case response_cookie (http (last (sent (snd (CallTool http name args s))))) of
              Some c \<Rightarrow> c | None \<Rightarrow> loginCookie s)
      else loginCookie s)
   \<and> (authenticated s \<longrightarrow> authenticated (run calls s))"
  using loginCookie_CallTool authenticated_run by blast

theorem cookie_lifecycle_witness:
  "loginCookie (snd (CallTool grants_cookie ''login_user'' (Some credentials) (init ''key'')))
     = session_cookie
   \<and> authenticated logged_in
   \<and> authenticated (run [(unauthorized, ''login_user'', Some credentials),
                       (network_down, ''create_tweet'', Some hello),
                       (answers JNull, ''login_user'', Some credentials),
                       (answers JNull, ''logout'', Some no_arguments)] logged_in)"
proof -
  let ?calls = "[(unauthorized, ''login_user'', Some credentials),
                 (network_down, ''create_tweet'', Some hello),
                 (answers JNull, ''login_user'', Some credentials),
                 (answers JNull, ''logout'', Some no_arguments)]"
  have h: "authenticated logged_in"
    by (simp add: authenticated_def logged_in_def)
  have c: "response_cookie (grants_cookie (last (sent (snd
         (CallTool grants_cookie ''login_user'' (Some credentials) (init ''key''))))))
       = Some session_cookie"
    by (simp add: sent_CallTool_login grants_cookie_def answers_def response_cookie_def
        session_cookie_def)
  from cookie_lifecycle [of grants_cookie "''login_user''" "Some credentials" "init ''key''"]
  have "loginCookie (snd (CallTool grants_cookie ''login_user'' (Some credentials) (init ''key'')))
     = session_cookie"
    by (simp add: c)
  moreover from cookie_lifecycle [of unauthorized "''login_user''" None logged_in ?calls] h
  have "authenticated (run ?calls logged_in)" by blast
  ultimately show ?thesis using h by blast
qed



text \<open>
  C8: each read operation issues one GET request, and when the upstream answers it the
  result has exactly one text block, whose text is the serialisation of the body of that
  answer as the client delivers it, and so parses to that body.
\<close>

theorem read_passthrough:
  assumes "name \<in> set read_operations"
  shows "\<exists>r. sent (snd (CallTool http name (Some a) s)) = sent s @ [r] \<and> verb r = GET
          \<and> (\<forall>d. http r = Response d \<longrightarrow>
                (\<exists>t. fst (CallTool http name (Some a) s) = Inr \<lparr>content = [TextContent t]\<rparr>
                      \<and> t = JSON_stringify d \<and> JSON_parse t = d))"
proof -
  from read_reply [OF assms] obtain ep ps
    where c: "CallTool http name (Some a) s = reply http (get_request s ep ps) s" by blast
  have "verb (get_request s ep ps) = GET" by (simp add: get_request_def)
  then show ?thesis
    by (simp add: c sent_reply fst_reply_Response)
qed

theorem read_passthrough_witness:
  "''get_user_by_username'' \<in> set read_operations
   \<and> (\<exists>r. sent (snd (CallTool (answers profile) ''get_user_by_username'' (Some lookup_jack) (init ''key'')))
             = sent (init ''key'') @ [r] \<and> verb r = GET
         \<and> answers profile r = Response profile
         \<and> (\<exists>t. fst (CallTool (answers profile) ''get_user_by_username'' (Some lookup_jack) (init ''key''))
                    = Inr \<lparr>content = [TextContent t]\<rparr>
                  \<and> JSON_parse t = profile))"
proof -
  have h: "''get_user_by_username'' \<in> set read_operations"
    by (simp add: read_operations_def)
  have a: "\<And>r. answers profile r = Response profile" by (simp add: answers_def)
  from read_passthrough [OF h, of "answers profile" lookup_jack "init ''key''"] h a
  show ?thesis by blast
qed

text \<open>
  C9 (as amended): when the request of a \<open>login_user\<close> call gets a 2xx response whose
  body is not \<open>null\<close> and has no \<open>cookie\<close> field, the call returns the payload
  \<open>{success: true, message: 'Login successful', user: ...}\<close> and the stored cookie is
  left as it was.
\<close>

theorem login_without_cookie:
  assumes "sent (snd (CallTool http ''login_user'' (Some a) s)) = sent s @ [r]"
    and "http r = Response d"
    and "d \<noteq> JNull"
    and "\<not> has_field d ''cookie''"
  shows "fst (CallTool http ''login_user'' (Some a) s) =
            Inr \<lparr>content = [TextContent (JSON_stringify (JObj
              [(''success'', JBool True), (''message'', JStr ''Login successful''),
               (''user'', case opt_property (Some d) ''user'' of
                            None \<Rightarrow> JObj [] | Some u \<Rightarrow> if truthy u then u else JObj [])]))]\<rparr>
         \<and> loginCookie (snd (CallTool http ''login_user'' (Some a) s)) = loginCookie s"
proof -
  from assms(1) have r: "r = login_request s a"
    by (simp add: sent_CallTool_login)
  from assms(4) have "opt_property (Some d) ''cookie'' = None"
    by (cases d) (simp_all add: has_field_def map_of_eq_None_iff)
  with assms(2,3) show ?thesis
    unfolding r by (simp add: CallTool_login_user login_succeeded_def split: option.split)
qed

theorem login_without_cookie_witness:
  "sent (snd (CallTool (answers (JObj [(''status'', JStr ''ok'')])) ''login_user'' (Some credentials) (init ''key'')))
     = sent (init ''key'') @ [login_request (init ''key'') credentials]
   \<and> JObj [(''status'', JStr ''ok'')] \<noteq> JNull
   \<and> \<not> has_field (JObj [(''status'', JStr ''ok'')]) ''cookie''
   \<and> fst (CallTool (answers (JObj [(''status'', JStr ''ok'')])) ''login_user'' (Some credentials) (init ''key'')) =
            Inr \<lparr>content = [TextContent (JSON_stringify (JObj
              [(''success'', JBool True), (''message'', JStr ''Login successful''), (''user'', JObj [])]))]\<rparr>
   \<and> \<not> authenticated (snd (CallTool (answers (JObj [(''status'', JStr ''ok'')])) ''login_user'' (Some credentials) (init ''key'')))"
proof -
  let ?d = "JObj [(''status'', JStr ''ok'')]"
  have h1: "sent (snd (CallTool (answers ?d) ''login_user'' (Some credentials) (init ''key'')))
     = sent (init ''key'') @ [login_request (init ''key'') credentials]"
    by (rule sent_CallTool_login)
  have h2: "answers ?d (login_request (init ''key'') credentials) = Response ?d"
    by (simp add: answers_def)
  have h3: "?d \<noteq> JNull" by simp
  have h4: "\<not> has_field ?d ''cookie''" by (simp add: has_field_def)
  from login_without_cookie [OF h1 h2 h3 h4] h1 h3 h4 show ?thesis
    by (simp add: authenticated_def init_def)
qed

text \<open>
  C9 as stated fails when the body is \<open>null\<close>: reading its \<open>cookie\<close> throws, and the
  call returns the \<open>success: false\<close> payload.
\<close>

theorem login_null_body_counterexample:
  "\<not> has_field JNull ''cookie'' \<and>
   fst (CallTool (answers JNull) ''login_user'' (Some credentials) (init ''key'')) =
     Inr \<lparr>content = [TextContent (JSON_stringify (JObj
       [(''success'', JBool False),
        (''error'', JStr (''Cannot read properties of null (reading '' @ [CHR 0x27] @ ''cookie'' @ [CHR 0x27] @ '')''))]))]\<rparr>"
  by (simp add: has_field_def CallTool_login_user answers_def login_failed_def)

text \<open>
  C10: a \<open>login_user\<close> call whose request fails leaves the stored cookie as it was.
\<close>

theorem failed_login_keeps_cookie:
  assumes "sent (snd (CallTool http ''login_user'' args s)) = sent s @ [r]"
    and "\<forall>d. http r \<noteq> Response d"
  shows "loginCookie (snd (CallTool http ''login_user'' args s)) = loginCookie s"
proof (cases args)
  case None
  then show ?thesis by (simp add: CallTool_None)
next
  case (Some a)
  from assms(1) have r: "r = login_request s a"
    unfolding Some by (simp add: sent_CallTool_login)
  from assms(2) show ?thesis
    unfolding Some r
    by (cases "http (login_request s a)") (simp_all add: CallTool_login_user)
qed

theorem failed_login_keeps_cookie_witness:
  "sent (snd (CallTool network_down ''login_user'' (Some credentials) logged_in))
     = sent logged_in @ [login_request logged_in credentials]
   \<and> (\<forall>d. network_down (login_request logged_in credentials) \<noteq> Response d)
   \<and> loginCookie (snd (CallTool network_down ''login_user'' (Some credentials) logged_in))
       = JStr ''auth_token=abc''"
proof -
  have h1: "sent (snd (CallTool network_down ''login_user'' (Some credentials) logged_in))
     = sent logged_in @ [login_request logged_in credentials]"
    by (rule sent_CallTool_login)
  have h2: "\<forall>d. network_down (login_request logged_in credentials) \<noteq> Response d"
    by (simp add: network_down_def)
  from failed_login_keeps_cookie [OF h1 h2] h1 h2 show ?thesis by (simp add: logged_in_def)
qed

end
